theory Spec2Isabelle
  imports Complex_Main "HOL-Library.Sublist"
begin

section \<open>Python values and the renderer's result object\<close>

text \<open>
  The service in \<^verbatim>\<open>src/app/crawler_service.py\<close> probes the object returned by the
  external renderer with \<^verbatim>\<open>hasattr\<close>/\<^verbatim>\<open>getattr\<close>. An attribute is modelled as an
  option: \<open>None\<close> when the object has no such attribute. Values whose Python type the
  code does not fix (\<^verbatim>\<open>metadata\<close>, \<^verbatim>\<open>title\<close>) are values of \<open>pyval\<close>.
\<close>

datatype pyval =
    PyNone
  | PyBool bool
  | PyInt int
  | PyStr string
  | PyList "pyval list"
  | PyDict "(string \<times> pyval) list"

text \<open>Python truthiness (\<^verbatim>\<open>bool(v)\<close>, as used by \<^verbatim>\<open>not metadata\<close>).\<close>

fun truthy :: "pyval \<Rightarrow> bool" where
  "truthy PyNone = False"
| "truthy (PyBool b) = b"
| "truthy (PyInt i) = (i \<noteq> 0)"
| "truthy (PyStr s) = (s \<noteq> [])"
| "truthy (PyList xs) = (xs \<noteq> [])"
| "truthy (PyDict kvs) = (kvs \<noteq> [])"

text \<open>
  The \<^verbatim>\<open>links\<close> attribute: \<^verbatim>\<open>_extract_links\<close> distinguishes a list, a dict (of which it
  takes the keys, in insertion order) and anything else. The items of the list and the
  keys of the dict are strings, as the return annotation \<^verbatim>\<open>List[str]\<close> has it.
\<close>

datatype links_attr =
    LinksList "string list"
  | LinksDict "(string \<times> pyval) list"
  | LinksOther

text \<open>
  The content attributes hold strings. For each of them the code only ever tests
  \<^verbatim>\<open>hasattr(result, a) and result.a\<close>, so an attribute that is missing, one that holds
  \<^verbatim>\<open>None\<close> and one that holds the empty string behave alike; \<open>None\<close> stands for
  the first two.
\<close>

record crawl_result =
  r_url :: "string option"
  r_links :: "links_attr option"
  r_metadata :: "pyval option"
  r_title :: "pyval option"
  r_success :: "bool option"
  r_markdown :: "string option"
  r_html :: "string option"
  r_text :: "string option"
  r_markdown_content :: "string option"
  r_html_content :: "string option"
  r_text_content :: "string option"

text \<open>An object with none of the attributes; the examples below update it.\<close>

definition bare_result :: crawl_result where
  "bare_result =
     \<lparr> r_url = None, r_links = None, r_metadata = None, r_title = None, r_success = None,
       r_markdown = None, r_html = None, r_text = None,
       r_markdown_content = None, r_html_content = None, r_text_content = None \<rparr>"

text \<open>\<^verbatim>\<open>hasattr(result, a) and result.a\<close> for a string attribute: the value when truthy.\<close>

definition truthy_attr :: "string option \<Rightarrow> string option" where
  "truthy_attr a = (case a of None \<Rightarrow> None | Some v \<Rightarrow> if v \<noteq> [] then Some v else None)"

section \<open>Content extraction: \<^verbatim>\<open>_extract_content\<close>\<close>

text \<open>
  The request model restricts \<^verbatim>\<open>content_type\<close> to \<^verbatim>\<open>markdown|html|text|all\<close>.
\<close>

datatype content_type = Markdown | Html | Text | All

fun attr_name :: "content_type \<Rightarrow> string" where
  "attr_name Markdown = ''markdown''"
| "attr_name Html = ''html''"
| "attr_name Text = ''text''"
| "attr_name All = ''all''"

text \<open>
  \<^verbatim>\<open>getattr(result, content_type)\<close> and \<^verbatim>\<open>getattr(result, f"{content_type}_content")\<close>;
  the result object has no attribute \<^verbatim>\<open>all\<close> or \<^verbatim>\<open>all_content\<close>.
\<close>

fun canonical_field :: "content_type \<Rightarrow> crawl_result \<Rightarrow> string option" where
  "canonical_field Markdown r = r_markdown r"
| "canonical_field Html r = r_html r"
| "canonical_field Text r = r_text r"
| "canonical_field All r = None"

fun content_field :: "content_type \<Rightarrow> crawl_result \<Rightarrow> string option" where
  "content_field Markdown r = r_markdown_content r"
| "content_field Html r = r_html_content r"
| "content_field Text r = r_text_content r"
| "content_field All r = None"

text \<open>The return type \<^verbatim>\<open>Union[str, Dict[str, str]]\<close>.\<close>

datatype content = ContentStr string | ContentDict "(string \<times> string) list"

text \<open>
  A \<^verbatim>\<open>for attr in [...]: if hasattr(..): val = ..; if val: return str(val)\<close> loop: the
  first truthy value of the attributes, in order.
\<close>

fun first_truthy :: "string option list \<Rightarrow> string option" where
  "first_truthy [] = None"
| "first_truthy (a # as) = (case truthy_attr a of Some v \<Rightarrow> Some v | None \<Rightarrow> first_truthy as)"

text \<open>The two loops of the \<^verbatim>\<open>"all"\<close> branch, building the dict in insertion order.\<close>

fun all_canonical :: "content_type list \<Rightarrow> crawl_result \<Rightarrow> (string \<times> string) list" where
  "all_canonical [] r = []"
| "all_canonical (t # ts) r =
     (case truthy_attr (canonical_field t r) of
        Some v \<Rightarrow> (attr_name t, v) # all_canonical ts r
      | None \<Rightarrow> all_canonical ts r)"

fun all_fallback ::
  "content_type list \<Rightarrow> crawl_result \<Rightarrow> (string \<times> string) list \<Rightarrow> (string \<times> string) list" where
  "all_fallback [] r content = content"
| "all_fallback (t # ts) r content =
     (case truthy_attr (content_field t r) of
        Some v \<Rightarrow>
          if attr_name t \<notin> fst ` set content
          then all_fallback ts r (content @ [(attr_name t, v)])
          else all_fallback ts r content
      | None \<Rightarrow> all_fallback ts r content)"

definition extract_content :: "crawl_result \<Rightarrow> content_type \<Rightarrow> content" where
  "extract_content r ct =
     (if ct = All then
        (let content = all_fallback [Markdown, Html, Text] r
                         (all_canonical [Markdown, Html, Text] r)
         in if content \<noteq> [] then ContentDict content else ContentStr [])
      else
        (case truthy_attr (canonical_field ct r) of
           Some v \<Rightarrow> ContentStr v
         | None \<Rightarrow>
        (case truthy_attr (content_field ct r) of
           Some v \<Rightarrow> ContentStr v
         | None \<Rightarrow>
        (case first_truthy [r_markdown r, r_html r, r_text r] of
           Some v \<Rightarrow> ContentStr v
         | None \<Rightarrow>
        (case first_truthy [r_markdown_content r, r_html_content r, r_text_content r] of
           Some v \<Rightarrow> ContentStr v
         | None \<Rightarrow> ContentStr [])))))"

text \<open>
  The specification's wording of the single-format case, for comparison with the code:
  a representation is the field of that name or, failing that, its
  \<^verbatim>\<open>_content\<close> alternate; the requested representation is returned when non-empty,
  else the first non-empty representation in the order markdown, html, text, else the
  empty string.
\<close>

definition representation :: "crawl_result \<Rightarrow> content_type \<Rightarrow> string option" where
  "representation r ct = first_truthy [canonical_field ct r, content_field ct r]"

definition spec_extract_content :: "crawl_result \<Rightarrow> content_type \<Rightarrow> content" where
  "spec_extract_content r ct =
     (case representation r ct of
        Some v \<Rightarrow> ContentStr v
      | None \<Rightarrow>
          (case first_truthy
                  [representation r Markdown, representation r Html, representation r Text] of
             Some v \<Rightarrow> ContentStr v
           | None \<Rightarrow> ContentStr []))"

section \<open>Regular expressions used by the extraction pipeline\<close>

text \<open>
  The three patterns of the source are deterministic enough to be written as scanners.
  A \<open>char\<close> stands for a code point below 256. \<open>is_space\<close> is what \<^verbatim>\<open>\s\<close> and
  \<^verbatim>\<open>str.strip\<close> treat as white space there: tab to carriage return, the four
  separators \<^verbatim>\<open>0x1c\<close> to \<^verbatim>\<open>0x1f\<close>, the blank, \<^verbatim>\<open>0x85\<close> and \<^verbatim>\<open>0xa0\<close>.
\<close>

definition is_space :: "char \<Rightarrow> bool" where
  "is_space c =
     (let n = (of_char c :: nat)
      in (9 \<le> n \<and> n \<le> 13) \<or> (28 \<le> n \<and> n \<le> 31) \<or> n = 32 \<or> n = 133 \<or> n = 160)"

definition newline :: char where
  "newline = CHR 0x0A"

definition strip :: "string \<Rightarrow> string" where
  "strip s = rev (dropWhile is_space (rev (dropWhile is_space s)))"

text \<open>
  \<^verbatim>\<open>#\s+(.+)$\<close> tried at the head of \<open>s\<close>, under \<^verbatim>\<open>re.MULTILINE\<close>; the result is group 1.
  After \<^verbatim>\<open>#\<close> the greedy \<^verbatim>\<open>\s+\<close> takes the whole run of white space. When a character
  follows the run it is not a newline, and \<^verbatim>\<open>(.+)\<close> takes the rest of that line. When
  the run reaches the end of the string, \<^verbatim>\<open>\s+\<close> gives characters back one at a time
  (keeping at least one) until \<^verbatim>\<open>.\<close> can match the character given back, i.e. until
  it is not a newline; everything after it is newlines, so the group is that one
  character.
\<close>

definition heading_backtrack :: "string \<Rightarrow> string option" where
  "heading_backtrack ws =
     (case dropWhile (\<lambda>c. c = newline) (rev (tl ws)) of
        [] \<Rightarrow> None
      | c # _ \<Rightarrow> Some [c])"

definition heading_at :: "string \<Rightarrow> string option" where
  "heading_at s =
     (case s of
        [] \<Rightarrow> None
      | c # rest \<Rightarrow>
          if c \<noteq> CHR ''#'' then None
          else
            (let ws = takeWhile is_space rest; after = dropWhile is_space rest
             in if ws = [] then None
                else if after \<noteq> [] then Some (takeWhile (\<lambda>c. c \<noteq> newline) after)
                else heading_backtrack ws))"

text \<open>
  \<^verbatim>\<open>re.search(r'^#\s+(.+)$', s, re.MULTILINE)\<close>: the first position, from the left, that
  is at the start of the string or just after a newline and where the pattern matches.
  \<open>bol\<close> says whether the current position is such a line start.
\<close>

fun search_heading_from :: "bool \<Rightarrow> string \<Rightarrow> string option" where
  "search_heading_from bol [] = None"
| "search_heading_from bol (c # cs) =
     (case (if bol then heading_at (c # cs) else None) of
        Some g \<Rightarrow> Some g
      | None \<Rightarrow> search_heading_from (c = newline) cs)"

definition search_heading :: "string \<Rightarrow> string option" where
  "search_heading s = search_heading_from True s"

text \<open>
  \<^verbatim>\<open>href=["\']([^"\']+)["\']\<close> tried at the head of \<open>s\<close>: group 1 and the text after the
  match. The greedy class takes every character up to the next quote, which must exist.
\<close>

definition is_quote :: "char \<Rightarrow> bool" where
  "is_quote c = (c = CHR 0x22 \<or> c = CHR 0x27)"

definition href_at :: "string \<Rightarrow> (string \<times> string) option" where
  "href_at s =
     (if prefix ''href='' s then
        (case drop 5 s of
           [] \<Rightarrow> None
         | q # rest \<Rightarrow>
             if is_quote q then
               (let run = takeWhile (\<lambda>c. \<not> is_quote c) rest;
                    after = dropWhile (\<lambda>c. \<not> is_quote c) rest
                in if run \<noteq> [] \<and> after \<noteq> [] then Some (run, tl after) else None)
             else None)
      else None)"

lemma href_at_shorter: "href_at s = Some (g, rest) \<Longrightarrow> length rest < length s"
proof -
  assume h: "href_at s = Some (g, rest)"
  then obtain q r where d: "drop 5 s = q # r" and
      rest: "rest = tl (dropWhile (\<lambda>c. \<not> is_quote c) r)"
    by (auto simp: href_at_def Let_def split: if_splits list.splits)
  have "length rest \<le> length r"
    using rest length_dropWhile_le [of "\<lambda>c. \<not> is_quote c" r] by simp
  moreover have "length r < length s"
  proof -
    have "length (drop 5 s) = Suc (length r)" using d by simp
    then show ?thesis by simp
  qed
  ultimately show ?thesis by simp
qed

text \<open>\<^verbatim>\<open>re.findall\<close> with that pattern: the groups of the successive matches, left to right.\<close>

function findall_href :: "string \<Rightarrow> string list" where
  "findall_href [] = []"
| "findall_href (c # cs) =
     (case href_at (c # cs) of
        Some (g, rest) \<Rightarrow> g # findall_href rest
      | None \<Rightarrow> findall_href cs)"
  by pat_completeness auto
termination
  by (relation "measure length") (auto dest: href_at_shorter)

text \<open>
  \<^verbatim>\<open>\[([^\]]+)\]\(([^)]+)\)\<close> tried at the head of \<open>s\<close>: groups 1 and 2 and the text after
  the match.
\<close>

definition mdlink_at :: "string \<Rightarrow> ((string \<times> string) \<times> string) option" where
  "mdlink_at s =
     (case s of
        [] \<Rightarrow> None
      | c # rest \<Rightarrow>
          if c \<noteq> CHR ''['' then None
          else
            (let label = takeWhile (\<lambda>c. c \<noteq> CHR '']'') rest;
                 after = dropWhile (\<lambda>c. c \<noteq> CHR '']'') rest
             in if label = [] then None
                else if \<not> prefix '']('' after then None
                else
                  (let target = takeWhile (\<lambda>c. c \<noteq> CHR '')'') (drop 2 after);
                       after' = dropWhile (\<lambda>c. c \<noteq> CHR '')'') (drop 2 after)
                   in if target \<noteq> [] \<and> after' \<noteq> [] then Some ((label, target), tl after')
                      else None)))"

lemma mdlink_at_shorter: "mdlink_at s = Some (g, rest) \<Longrightarrow> length rest < length s"
proof -
  assume h: "mdlink_at s = Some (g, rest)"
  then obtain c r where s: "s = c # r" and
      rest: "rest = tl (dropWhile (\<lambda>c. c \<noteq> CHR '')'')
                     (drop 2 (dropWhile (\<lambda>c. c \<noteq> CHR '']'') r)))"
    by (auto simp: mdlink_at_def Let_def split: if_splits list.splits)
  have "length rest \<le> length (drop 2 (dropWhile (\<lambda>c. c \<noteq> CHR '']'') r))"
    using rest length_dropWhile_le
      [of "\<lambda>c. c \<noteq> CHR '')''" "drop 2 (dropWhile (\<lambda>c. c \<noteq> CHR '']'') r)"] by simp
  also have "\<dots> \<le> length r"
    using length_dropWhile_le [of "\<lambda>c. c \<noteq> CHR '']''" r] by simp
  finally show ?thesis using s by simp
qed

function findall_mdlink :: "string \<Rightarrow> (string \<times> string) list" where
  "findall_mdlink [] = []"
| "findall_mdlink (c # cs) =
     (case mdlink_at (c # cs) of
        Some (g, rest) \<Rightarrow> g # findall_mdlink rest
      | None \<Rightarrow> findall_mdlink cs)"
  by pat_completeness auto
termination
  by (relation "measure length") (auto dest: mdlink_at_shorter)

section \<open>Link and metadata extraction\<close>

text \<open>\<^verbatim>\<open>url.startswith(('http://', 'https://', '/'))\<close>.\<close>

definition link_prefix_ok :: "string \<Rightarrow> bool" where
  "link_prefix_ok u = (prefix ''http://'' u \<or> prefix ''https://'' u \<or> prefix ''/'' u)"

text \<open>
  The closing loop of \<^verbatim>\<open>_extract_links\<close>: a link is kept when it has not been seen
  and is not blank.
\<close>

fun unique_links :: "string list \<Rightarrow> string set \<Rightarrow> string list" where
  "unique_links [] seen = []"
| "unique_links (link # links) seen =
     (if link \<notin> seen \<and> strip link \<noteq> []
      then link # unique_links links (insert link seen)
      else unique_links links seen)"

text \<open>The structured links: a list as it is, the keys of a dict, nothing otherwise.\<close>

definition structured_links :: "crawl_result \<Rightarrow> string list" where
  "structured_links r =
     (case r_links r of
        Some (LinksList l) \<Rightarrow> l
      | Some (LinksDict d) \<Rightarrow> map fst d
      | _ \<Rightarrow> [])"

definition html_links :: "string list \<Rightarrow> crawl_result \<Rightarrow> string list" where
  "html_links links r =
     (if links \<noteq> [] then links
      else
        (case truthy_attr (r_html_content r) of
           Some h \<Rightarrow> filter link_prefix_ok (findall_href h)
         | None \<Rightarrow>
             (case truthy_attr (r_html r) of
                Some h \<Rightarrow> filter link_prefix_ok (findall_href h)
              | None \<Rightarrow> links)))"

definition markdown_links :: "string list \<Rightarrow> crawl_result \<Rightarrow> string list" where
  "markdown_links links r =
     (if links \<noteq> [] then links
      else
        (case truthy_attr (r_markdown_content r) of
           Some m \<Rightarrow> filter link_prefix_ok (map snd (findall_mdlink m))
         | None \<Rightarrow>
             (case truthy_attr (r_markdown r) of
                Some m \<Rightarrow> filter link_prefix_ok (map snd (findall_mdlink m))
              | None \<Rightarrow> links)))"

text \<open>The value of \<^verbatim>\<open>links\<close> when the closing loop starts.\<close>

definition found_links :: "crawl_result \<Rightarrow> string list" where
  "found_links r = markdown_links (html_links (structured_links r) r) r"

definition extract_links :: "crawl_result \<Rightarrow> string list" where
  "extract_links r = unique_links (found_links r) {}"

text \<open>
  \<^verbatim>\<open>_extract_metadata\<close>: one \<^verbatim>\<open>if/elif\<close> chain; the branch taken is the first whose
  condition holds, whatever it then produces.
\<close>

definition title_of_heading :: "string \<Rightarrow> (string \<times> pyval) list" where
  "title_of_heading m =
     (case search_heading m of Some g \<Rightarrow> [(''title'', PyStr g)] | None \<Rightarrow> [])"

definition extract_metadata :: "crawl_result \<Rightarrow> (string \<times> pyval) list" where
  "extract_metadata r =
     (case r_metadata r of
        Some (PyDict d) \<Rightarrow> d
      | _ \<Rightarrow>
        (case r_title r of
           Some t \<Rightarrow> [(''title'', t)]
         | None \<Rightarrow>
           (case truthy_attr (r_markdown_content r) of
              Some m \<Rightarrow> title_of_heading m
            | None \<Rightarrow>
              (case truthy_attr (r_markdown r) of
                 Some m \<Rightarrow> title_of_heading m
               | None \<Rightarrow> []))))"

section \<open>URL helpers of \<^verbatim>\<open>src/app/utils.py\<close>\<close>

text \<open>
  \<^verbatim>\<open>urljoin\<close> and \<^verbatim>\<open>urlparse\<close> belong to the standard library and are parameters.
  Either may raise; \<^verbatim>\<open>validate_url\<close> catches that, \<^verbatim>\<open>normalize_url\<close> does not.
\<close>

datatype exn = Exception string

record parse_result =
  scheme :: string
  netloc :: string

definition validate_url :: "(string \<Rightarrow> exn + parse_result) \<Rightarrow> string \<Rightarrow> bool" where
  "validate_url urlparse u =
     (case urlparse u of
        Inl e \<Rightarrow> False
      | Inr result \<Rightarrow> scheme result \<noteq> [] \<and> netloc result \<noteq> [])"

definition normalize_url ::
  "(string \<Rightarrow> string \<Rightarrow> exn + string) \<Rightarrow> string \<Rightarrow> string option \<Rightarrow> exn + string" where
  "normalize_url urljoin u base_url =
     (case base_url of
        None \<Rightarrow> Inr u
      | Some b \<Rightarrow>
          if b \<noteq> [] \<and> \<not> (prefix ''http://'' u \<or> prefix ''https://'' u)
          then urljoin b u
          else Inr u)"

section \<open>The result object as the batch crawl reads it\<close>

text \<open>
  \<^verbatim>\<open>crawl_urls\<close> calls \<^verbatim>\<open>_extract_metadata\<close> and \<^verbatim>\<open>_extract_content\<close> inside its \<^verbatim>\<open>try\<close>,
  on whatever object the renderer returned and with whatever \<^verbatim>\<open>content_type\<close> it was
  given, so there it matters what the two functions do outside the string-typed case of
  the sections above. A content attribute holds a \<^verbatim>\<open>str\<close> or some other object. Of an
  object that is not a \<^verbatim>\<open>str\<close> the code uses the truth value and what \<^verbatim>\<open>str()\<close> makes of
  it, and \<^verbatim>\<open>re.search\<close> raises \<^verbatim>\<open>TypeError\<close> on it: \<^verbatim>\<open>None\<close> is \<open>Obj False ''None''\<close>,
  the number \<^verbatim>\<open>123\<close> is \<open>Obj True ''123''\<close>.
\<close>

datatype attr_value = Str string | Obj bool string

fun bool_of :: "attr_value \<Rightarrow> bool" where
  "bool_of (Str s) = (s \<noteq> [])"
| "bool_of (Obj t s) = t"

fun str_of :: "attr_value \<Rightarrow> string" where
  "str_of (Str s) = s"
| "str_of (Obj t s) = s"

record raw_result =
  raw_metadata :: "pyval option"
  raw_title :: "pyval option"
  raw_success :: "bool option"
  raw_markdown :: "attr_value option"
  raw_html :: "attr_value option"
  raw_text :: "attr_value option"
  raw_markdown_content :: "attr_value option"
  raw_html_content :: "attr_value option"
  raw_text_content :: "attr_value option"

definition bare_raw :: raw_result where
  "bare_raw =
     \<lparr> raw_metadata = None, raw_title = None, raw_success = None,
       raw_markdown = None, raw_html = None, raw_text = None,
       raw_markdown_content = None, raw_html_content = None, raw_text_content = None \<rparr>"

text \<open>\<^verbatim>\<open>hasattr(result, a) and result.a\<close>: the value when there is one and it is truthy.\<close>

definition truthy_value :: "attr_value option \<Rightarrow> attr_value option" where
  "truthy_value a = (case a of None \<Rightarrow> None | Some v \<Rightarrow> if bool_of v then Some v else None)"

text \<open>
  The body of a markdown branch of \<^verbatim>\<open>_extract_metadata\<close>: \<^verbatim>\<open>re.search\<close> on the value, which
  raises \<^verbatim>\<open>TypeError\<close> unless the value is a string. The wording of the interpreter's
  messages is that of CPython 3.10; nothing below depends on it.
\<close>

definition search_title :: "attr_value \<Rightarrow> exn + (string \<times> pyval) list" where
  "search_title v =
     (case v of
        Str m \<Rightarrow> Inr (title_of_heading m)
      | Obj t s \<Rightarrow> Inl (Exception ''expected string or bytes-like object''))"

definition extract_metadata_raw :: "raw_result \<Rightarrow> exn + (string \<times> pyval) list" where
  "extract_metadata_raw r =
     (case raw_metadata r of
        Some (PyDict d) \<Rightarrow> Inr d
      | _ \<Rightarrow>
        (case raw_title r of
           Some t \<Rightarrow> Inr [(''title'', t)]
         | None \<Rightarrow>
           (case truthy_value (raw_markdown_content r) of
              Some v \<Rightarrow> search_title v
            | None \<Rightarrow>
              (case truthy_value (raw_markdown r) of
                 Some v \<Rightarrow> search_title v
               | None \<Rightarrow> Inr []))))"

fun raw_canonical_field :: "content_type \<Rightarrow> raw_result \<Rightarrow> attr_value option" where
  "raw_canonical_field Markdown r = raw_markdown r"
| "raw_canonical_field Html r = raw_html r"
| "raw_canonical_field Text r = raw_text r"
| "raw_canonical_field All r = None"

fun raw_content_field :: "content_type \<Rightarrow> raw_result \<Rightarrow> attr_value option" where
  "raw_content_field Markdown r = raw_markdown_content r"
| "raw_content_field Html r = raw_html_content r"
| "raw_content_field Text r = raw_text_content r"
| "raw_content_field All r = None"

text \<open>\<^verbatim>\<open>str(val)\<close> of the first attribute, in order, whose value is truthy.\<close>

fun first_str :: "attr_value option list \<Rightarrow> string option" where
  "first_str [] = None"
| "first_str (a # as) =
     (case truthy_value a of Some v \<Rightarrow> Some (str_of v) | None \<Rightarrow> first_str as)"

fun raw_all_canonical :: "content_type list \<Rightarrow> raw_result \<Rightarrow> (string \<times> string) list" where
  "raw_all_canonical [] r = []"
| "raw_all_canonical (t # ts) r =
     (case truthy_value (raw_canonical_field t r) of
        Some v \<Rightarrow> (attr_name t, str_of v) # raw_all_canonical ts r
      | None \<Rightarrow> raw_all_canonical ts r)"

fun raw_all_fallback ::
  "content_type list \<Rightarrow> raw_result \<Rightarrow> (string \<times> string) list \<Rightarrow> (string \<times> string) list" where
  "raw_all_fallback [] r content = content"
| "raw_all_fallback (t # ts) r content =
     (case truthy_value (raw_content_field t r) of
        Some v \<Rightarrow>
          if attr_name t \<notin> fst ` set content
          then raw_all_fallback ts r (content @ [(attr_name t, str_of v)])
          else raw_all_fallback ts r content
      | None \<Rightarrow> raw_all_fallback ts r content)"

text \<open>
  \<^verbatim>\<open>_extract_content\<close> on such an object. The content type is \<open>None\<close> when the caller
  passed \<^verbatim>\<open>None\<close> (the request model admits \<^verbatim>\<open>null\<close>): it is not \<^verbatim>\<open>"all"\<close>, and
  \<^verbatim>\<open>hasattr(result, None)\<close> raises \<^verbatim>\<open>TypeError\<close>.
\<close>

definition extract_content_raw :: "raw_result \<Rightarrow> content_type option \<Rightarrow> exn + content" where
  "extract_content_raw r content_type =
     (case content_type of
        None \<Rightarrow> Inl (Exception ''hasattr(): attribute name must be string'')
      | Some ct \<Rightarrow>
          if ct = All then
            (let content = raw_all_fallback [Markdown, Html, Text] r
                             (raw_all_canonical [Markdown, Html, Text] r)
             in if content \<noteq> [] then Inr (ContentDict content) else Inr (ContentStr []))
          else
            (case first_str [raw_canonical_field ct r] of
               Some v \<Rightarrow> Inr (ContentStr v)
             | None \<Rightarrow>
            (case first_str [raw_content_field ct r] of
               Some v \<Rightarrow> Inr (ContentStr v)
             | None \<Rightarrow>
            (case first_str [raw_markdown r, raw_html r, raw_text r] of
               Some v \<Rightarrow> Inr (ContentStr v)
             | None \<Rightarrow>
            (case first_str
                    [raw_markdown_content r, raw_html_content r, raw_text_content r] of
               Some v \<Rightarrow> Inr (ContentStr v)
             | None \<Rightarrow> Inr (ContentStr []))))))"

text \<open>
  An object all of whose content attributes are strings, as the sections above take
  it, seen as such an object.
\<close>

definition raw_of :: "crawl_result \<Rightarrow> raw_result" where
  "raw_of r =
     \<lparr> raw_metadata = r_metadata r, raw_title = r_title r, raw_success = r_success r,
       raw_markdown = map_option Str (r_markdown r),
       raw_html = map_option Str (r_html r),
       raw_text = map_option Str (r_text r),
       raw_markdown_content = map_option Str (r_markdown_content r),
       raw_html_content = map_option Str (r_html_content r),
       raw_text_content = map_option Str (r_text_content r) \<rparr>"

section \<open>The service: collaborators and state\<close>

text \<open>
  The deep-crawl strategy object handed to the renderer. The source builds a filter chain
  and then leaves the \<^verbatim>\<open>filter_chain=url_filter\<close> argument of all three constructors
  commented out, so the strategy is built without one.
\<close>

datatype strategy_kind = DFS | BestFirst | BFS

record deep_crawl_strategy =
  kind :: strategy_kind
  max_depth :: int
  max_pages :: int
  filter_chain :: "string list option"

text \<open>
  What the service does not compute itself: whether \<^verbatim>\<open>initialize\<close> raises, the renderer
  (\<^verbatim>\<open>arun\<close> for the \<open>i\<close>-th URL of a batch, counted from 0, either raising or
  returning a result object; \<open>deep_arun\<close> for a deep crawl, either raising or yielding
  the stream of result objects), the successive readings of \<^verbatim>\<open>time.time()\<close> and the
  task id from \<^verbatim>\<open>uuid.uuid4()\<close>. The run configuration is fixed for a whole batch and
  is part of \<open>arun\<close>. Only exceptions derived from \<^verbatim>\<open>Exception\<close> are modelled.

  Times are Python floats. A float is read as the real number it denotes, and the
  interpreter's operations on floats are collaborators too, since they are not the
  exact operations on the reals: \<open>float_sub\<close> is the subtraction \<^verbatim>\<open>a - b\<close>,
  \<open>float_div\<close> the division \<^verbatim>\<open>a / n\<close> and \<open>float_round2\<close> the rounding
  \<^verbatim>\<open>round(a, 2)\<close>.
\<close>

record env =
  initialize_raises :: "exn option"
  arun :: "nat \<Rightarrow> string \<Rightarrow> exn + raw_result"
  deep_arun :: "string \<Rightarrow> deep_crawl_strategy \<Rightarrow> exn + crawl_result list"
  time_time :: "nat \<Rightarrow> real"
  float_sub :: "real \<Rightarrow> real \<Rightarrow> real"
  float_div :: "real \<Rightarrow> real \<Rightarrow> real"
  float_round2 :: "real \<Rightarrow> real"
  uuid4 :: string

text \<open>The service object: \<^verbatim>\<open>self.crawler\<close> is either \<^verbatim>\<open>None\<close> or a crawler.\<close>

record service =
  crawler :: bool

definition initialize :: "env \<Rightarrow> service \<Rightarrow> exn + service" where
  "initialize e s =
     (case initialize_raises e of
        Some x \<Rightarrow> Inl x
      | None \<Rightarrow> Inr (s\<lparr>crawler := True\<rparr>))"

section \<open>Deep crawl: \<^verbatim>\<open>_build_url_filter\<close> and \<^verbatim>\<open>crawl_sub_urls\<close>\<close>

definition default_exclude_patterns :: "string list" where
  "default_exclude_patterns =
     [''.*login.*'', ''.*signup.*'', ''.*register.*'', ''.*sign-in.*'', ''.*sign-up.*'',
      ''.*auth.*'', ''.*password.*'', ''.*reset.*'', ''.*logout.*'', ''.*admin.*'',
      ''.*dashboard.*'', ''.*profile.*'', ''.*account.*'', ''.*checkout.*'', ''.*cart.*'',
      ''.*payment.*'', ''.*billing.*'', ''.*subscribe.*'', ''.*newsletter.*'',
      ''.*contact.*'', ''.*support.*'', ''.*help.*'', ''.*faq.*'', ''.*sitemap.*'',
      ''.*robots.*'',
      ''.*'' @ [CHR 0x5C] @ ''.(pdf|doc|docx|xls|xlsx|ppt|pptx|zip|rar|exe|dmg)$'']"

text \<open>
  \<^verbatim>\<open>_build_url_filter\<close>: the pattern list of the one \<^verbatim>\<open>URLPatternFilter\<close> in the chain.
  \<open>None\<close> is a missing or \<^verbatim>\<open>None\<close> argument.
\<close>

definition build_url_filter :: "string list option \<Rightarrow> string list" where
  "build_url_filter exclude_patterns =
     default_exclude_patterns @ (case exclude_patterns of None \<Rightarrow> [] | Some ps \<Rightarrow> ps)"

text \<open>The keyword arguments read by \<^verbatim>\<open>crawl_sub_urls\<close>; \<open>None\<close> is a missing key.\<close>

record sub_urls_kwargs =
  k_depth :: "int option"
  k_max_pages :: "int option"
  k_strategy :: "string option"
  k_exclude_patterns :: "string list option"

definition deep_crawl_depth :: int where "deep_crawl_depth = 5"
definition deep_crawl_max_pages :: int where "deep_crawl_max_pages = 10"
definition deep_crawl_strategy_default :: string where
  "deep_crawl_strategy_default = ''best_first''"

definition get_or :: "'a option \<Rightarrow> 'a \<Rightarrow> 'a" where
  "get_or v d = (case v of Some x \<Rightarrow> x | None \<Rightarrow> d)"

definition build_strategy :: "sub_urls_kwargs \<Rightarrow> deep_crawl_strategy" where
  "build_strategy kw =
     (let depth = get_or (k_depth kw) deep_crawl_depth;
          mp = get_or (k_max_pages kw) deep_crawl_max_pages;
          strategy = get_or (k_strategy kw) deep_crawl_strategy_default;
          url_filter = build_url_filter (k_exclude_patterns kw)
      in \<lparr> kind = (if strategy = ''dfs'' then DFS
                   else if strategy = ''best_first'' then BestFirst else BFS),
           max_depth = depth, max_pages = mp, filter_chain = None \<rparr>)"

text \<open>
  The loop over the crawled pages. \<^verbatim>\<open>all_urls\<close> is a Python set, kept here as a list
  without repetitions; the order in which Python iterates over a set is not fixed by the
  language, and nothing below depends on the order chosen here.
\<close>

definition set_add :: "string \<Rightarrow> string list \<Rightarrow> string list" where
  "set_add u us = (if u \<in> set us then us else us @ [u])"

fun collect :: "crawl_result list \<Rightarrow> string list \<times> pyval \<Rightarrow> string list \<times> pyval" where
  "collect [] acc = acc"
| "collect (r # rs) (all_urls, metadata) =
     collect rs
       ((case r_url r of Some u \<Rightarrow> set_add u all_urls | None \<Rightarrow> all_urls),
        (if truthy metadata then metadata
         else
           (case r_metadata r of
              Some m \<Rightarrow> m
            | None \<Rightarrow>
                (case r_title r of
                   Some t \<Rightarrow> PyDict [(''title'', t)]
                 | None \<Rightarrow> metadata))))"

record crawl_sub_urls_response =
  s_task_id :: string
  s_url :: string
  s_sub_urls :: "string list"
  s_metadata :: pyval
  s_success :: bool
  s_execution_time_seconds :: real
  s_urls_found :: nat
  s_crawl_depth :: int
  s_max_pages :: int
  s_strategy :: string

text \<open>
  \<^verbatim>\<open>crawl_sub_urls\<close>. An exception of \<^verbatim>\<open>initialize\<close>, of the \<^verbatim>\<open>assert\<close> on the crawler or
  of the renderer is logged and raised again. The filter built by
  \<^verbatim>\<open>_build_url_filter\<close> is bound inside \<open>build_strategy\<close> and used nowhere.
\<close>

definition crawl_sub_urls ::
  "env \<Rightarrow> service \<Rightarrow> string \<Rightarrow> sub_urls_kwargs \<Rightarrow> exn + crawl_sub_urls_response \<times> service" where
  "crawl_sub_urls e s u kw =
     (let total_start_time = time_time e 0 in
      case (if \<not> crawler s then initialize e s else Inr s) of
        Inl x \<Rightarrow> Inl x
      | Inr s' \<Rightarrow>
          if \<not> crawler s' then Inl (Exception ''AssertionError'')
          else
          (case deep_arun e u (build_strategy kw) of
             Inl x \<Rightarrow> Inl x
           | Inr results \<Rightarrow>
               (let (all_urls, metadata) = collect results ([], PyDict []);
                    sub_urls = filter (\<lambda>found_url. found_url \<noteq> u) all_urls;
                    total_end_time = time_time e 1
                in Inr (\<lparr> s_task_id = uuid4 e,
                           s_url = u,
                           s_sub_urls = sub_urls,
                           s_metadata = metadata,
                           s_success = True,
                           s_execution_time_seconds =
                             float_round2 e (float_sub e total_end_time total_start_time),
                           s_urls_found = length sub_urls,
                           s_crawl_depth = get_or (k_depth kw) deep_crawl_depth,
                           s_max_pages = get_or (k_max_pages kw) deep_crawl_max_pages,
                           s_strategy = get_or (k_strategy kw) deep_crawl_strategy_default \<rparr>,
                         s'))))"

section \<open>Batch crawl: \<^verbatim>\<open>crawl_urls\<close>\<close>

text \<open>The per-URL dict; \<open>e_error = None\<close> is a dict without the key \<^verbatim>\<open>error\<close>.\<close>

record url_entry =
  e_url :: string
  e_metadata :: "(string \<times> pyval) list"
  e_content :: content
  e_success :: bool
  e_execution_time_seconds :: real
  e_error :: "string option"

text \<open>
  The body of the inner \<^verbatim>\<open>try\<close>, up to the values the entry is built from: the check
  of the crawler, the fetch, \<^verbatim>\<open>_extract_metadata\<close>, then \<^verbatim>\<open>_extract_content\<close>; the first
  of them to raise ends it. \<open>ct\<close> is the value of
  \<^verbatim>\<open>kwargs.get("content_type", "markdown")\<close>.
\<close>

definition try_url ::
  "env \<Rightarrow> service \<Rightarrow> content_type option \<Rightarrow> nat \<Rightarrow> string
     \<Rightarrow> exn + (string \<times> pyval) list \<times> content \<times> bool" where
  "try_url e s ct i u =
     (if \<not> crawler s then Inl (Exception ''Crawler is None'')
      else
        (case arun e i u of
           Inl x \<Rightarrow> Inl x
         | Inr result \<Rightarrow>
             (case extract_metadata_raw result of
                Inl x \<Rightarrow> Inl x
              | Inr metadata \<Rightarrow>
                  (case extract_content_raw result ct of
                     Inl x \<Rightarrow> Inl x
                   | Inr content \<Rightarrow>
                       Inr (metadata, content, get_or (raw_success result) True)))))"

fun str_exn :: "exn \<Rightarrow> string" where
  "str_exn (Exception msg) = msg"

text \<open>
  One iteration: the clock is read before the \<^verbatim>\<open>try\<close> and once more in whichever branch
  builds the entry. Reading 0 is the start of the batch, readings \<open>2 i + 1\<close> and
  \<open>2 i + 2\<close> belong to URL \<open>i\<close>.
\<close>

definition process_url ::
  "env \<Rightarrow> service \<Rightarrow> content_type option \<Rightarrow> nat \<Rightarrow> string \<Rightarrow> url_entry" where
  "process_url e s ct i u =
     (let url_start_time = time_time e (2 * i + 1);
          url_end_time = time_time e (2 * i + 2);
          url_execution_time = float_round2 e (float_sub e url_end_time url_start_time)
      in case try_url e s ct i u of
           Inr (metadata, content, ok) \<Rightarrow>
             \<lparr> e_url = u, e_metadata = metadata, e_content = content, e_success = ok,
               e_execution_time_seconds = url_execution_time, e_error = None \<rparr>
         | Inl url_error \<Rightarrow>
             \<lparr> e_url = u, e_metadata = [], e_content = ContentStr [], e_success = False,
               e_execution_time_seconds = url_execution_time,
               e_error = Some (str_exn url_error) \<rparr>)"

fun crawl_loop ::
  "env \<Rightarrow> service \<Rightarrow> content_type option \<Rightarrow> nat \<Rightarrow> string list \<Rightarrow> url_entry list" where
  "crawl_loop e s ct i [] = []"
| "crawl_loop e s ct i (u # us) = process_url e s ct i u # crawl_loop e s ct (Suc i) us"

record crawl_urls_response =
  b_task_id :: string
  b_results :: "url_entry list"
  b_success :: bool
  b_total_execution_time_seconds :: real
  b_urls_processed :: nat
  b_average_time_per_url :: real

text \<open>
  The keyword argument \<^verbatim>\<open>content_type\<close>: \<open>None\<close> is a missing key, for which
  \<^verbatim>\<open>kwargs.get\<close> gives \<^verbatim>\<open>"markdown"\<close>; \<open>Some None\<close> is the key with the value \<^verbatim>\<open>None\<close>.
\<close>

definition crawl_urls ::
  "env \<Rightarrow> service \<Rightarrow> string list \<Rightarrow> content_type option option
     \<Rightarrow> exn + crawl_urls_response \<times> service" where
  "crawl_urls e s urls content_type =
     (let total_start_time = time_time e 0 in
      case (if \<not> crawler s then initialize e s else Inr s) of
        Inl x \<Rightarrow> Inl x
      | Inr s' \<Rightarrow>
          if \<not> crawler s' then Inl (Exception ''Failed to initialize crawler'')
          else
            (let total_urls = length urls;
                 results = crawl_loop e s' (get_or content_type (Some Markdown)) 0 urls;
                 total_end_time = time_time e (2 * total_urls + 1);
                 total_execution_time =
                   float_round2 e (float_sub e total_end_time total_start_time)
             in Inr (\<lparr> b_task_id = uuid4 e,
                        b_results = results,
                        b_success = list_all e_success results,
                        b_total_execution_time_seconds = total_execution_time,
                        b_urls_processed = total_urls,
                        b_average_time_per_url =
                          (if total_urls > 0
                           then float_round2 e
                                  (float_div e total_execution_time (real total_urls))
                           else 0) \<rparr>,
                      s')))"

section \<open>Example collaborators\<close>

text \<open>
  Arithmetic for the examples: exact subtraction and division, and rounding to the nearest
  hundredth with a tie going to the even one. This is not the interpreter's arithmetic
  on binary floats in general; the examples apply it to the numbers 0, 1 and 1/3 only,
  where no tie arises.
\<close>

definition round_half_even :: "real \<Rightarrow> int" where
  "round_half_even x =
     (let f = \<lfloor>x\<rfloor>; d = x - of_int f
      in if d < 1 / 2 then f else if d > 1 / 2 then f + 1 else if even f then f else f + 1)"

definition decimal_round2 :: "real \<Rightarrow> real" where
  "decimal_round2 x = of_int (round_half_even (x * 100)) / 100"

text \<open>
  A renderer for the examples. In a batch, the first result reports
  \<^verbatim>\<open>success = False\<close>, the fetch of the second URL raises, the third result has no
  \<^verbatim>\<open>success\<close> attribute, and the fourth result has the number 123 for its \<^verbatim>\<open>markdown\<close>,
  on which \<^verbatim>\<open>_extract_metadata\<close> raises; the clock reads 1 at its eighth reading and 0
  otherwise. A deep crawl from \<open>u\<close> yields the page \<open>u\<close> itself and, twice, the
  page \<open>u/login\<close>.
\<close>

definition example_env :: env where
  "example_env =
     \<lparr> initialize_raises = None,
       arun = (\<lambda>i u. if i = 1 then Inl (Exception ''timeout'')
                      else if i = 3 then Inr (bare_raw\<lparr>raw_markdown := Some (Obj True ''123'')\<rparr>)
                      else Inr (bare_raw\<lparr>raw_markdown := Some (Str ''# T''),
                                  raw_success := (if i = 0 then Some False else None)\<rparr>)),
       deep_arun = (\<lambda>u st. Inr [bare_result\<lparr>r_url := Some u\<rparr>,
                                  bare_result\<lparr>r_url := Some (u @ ''/login'')\<rparr>,
                                  bare_result\<lparr>r_url := Some (u @ ''/login'')\<rparr>]),
       time_time = (\<lambda>k. if k = 7 then 1 else 0),
       float_sub = (\<lambda>a b. a - b),
       float_div = (\<lambda>a b. a / b),
       float_round2 = decimal_round2,
       uuid4 = ''id'' \<rparr>"

section \<open>Properties of content extraction\<close>

lemma truthy_attr_None [simp]: "truthy_attr None = None"
  by (simp add: truthy_attr_def)

lemma truthy_attr_Some_iff: "truthy_attr a = Some v \<longleftrightarrow> a = Some v \<and> v \<noteq> []"
  by (auto simp: truthy_attr_def split: option.splits)

lemma truthy_attr_idem: "truthy_attr a = Some v \<Longrightarrow> truthy_attr (Some v) = Some v"
  by (auto simp: truthy_attr_def split: option.splits if_splits)

text \<open>
  Claim C5, as stated, read with the specification's notion of a representation: for a
  single requested format the result is that representation when non-empty, else the
  first non-empty representation in the order markdown, html, text, else the empty
  string. The code differs on an outcome that mixes the two families of field names:
  with \<^verbatim>\<open>html\<close> and \<^verbatim>\<open>markdown_content\<close> set and \<^verbatim>\<open>text\<close> requested, the code returns
  the html (it tries the three plain names before any \<^verbatim>\<open>_content\<close> name), while the
  first non-empty representation in the stated order is the markdown.
\<close>

theorem extract_content_mixed_counterexample:
  "extract_content (bare_result\<lparr>r_html := Some ''H'', r_markdown_content := Some ''M''\<rparr>) Text
     = ContentStr ''H''
   \<and> spec_extract_content
         (bare_result\<lparr>r_html := Some ''H'', r_markdown_content := Some ''M''\<rparr>) Text
     = ContentStr ''M''"
  by (simp add: extract_content_def spec_extract_content_def representation_def
      bare_result_def truthy_attr_def)

text \<open>
  Claim C5, amended: for a single requested format, \<^verbatim>\<open>_extract_content\<close> returns the first
  non-empty value among, in this order, the requested field, its \<^verbatim>\<open>_content\<close> alternate,
  \<^verbatim>\<open>markdown\<close>, \<^verbatim>\<open>html\<close>, \<^verbatim>\<open>text\<close>, \<^verbatim>\<open>markdown_content\<close>, \<^verbatim>\<open>html_content\<close>,
  \<^verbatim>\<open>text_content\<close>, and the empty string when there is none. So the requested
  representation is returned whenever it is non-empty, and the result is the one the
  specification describes whenever the outcome uses only one of the two families of
  field names.
\<close>

theorem extract_content_single:
  "ct \<noteq> All \<Longrightarrow>
     extract_content r ct =
       ContentStr
         (case first_truthy
                 [canonical_field ct r, content_field ct r,
                  r_markdown r, r_html r, r_text r,
                  r_markdown_content r, r_html_content r, r_text_content r] of
            Some v \<Rightarrow> v
          | None \<Rightarrow> [])
     \<and> (\<forall>v. representation r ct = Some v \<longrightarrow> extract_content r ct = ContentStr v)
     \<and> (truthy_attr (r_markdown_content r) = None \<and> truthy_attr (r_html_content r) = None
          \<and> truthy_attr (r_text_content r) = None
        \<longrightarrow> extract_content r ct = spec_extract_content r ct)
     \<and> (truthy_attr (r_markdown r) = None \<and> truthy_attr (r_html r) = None
          \<and> truthy_attr (r_text r) = None
        \<longrightarrow> extract_content r ct = spec_extract_content r ct)"
  by (cases ct)
     (auto simp: extract_content_def spec_extract_content_def representation_def
        truthy_attr_idem split: option.splits)

text \<open>The amended statement at the outcome of the counterexample.\<close>

theorem extract_content_single_witness:
  "Text \<noteq> All \<and>
   extract_content (bare_result\<lparr>r_html := Some ''H'', r_markdown_content := Some ''M''\<rparr>) Text
     = ContentStr ''H''"
  using extract_content_single
    [of Text "bare_result\<lparr>r_html := Some ''H'', r_markdown_content := Some ''M''\<rparr>"]
  by (simp add: bare_result_def truthy_attr_def)

section \<open>Properties of metadata extraction\<close>





section \<open>Properties of link extraction\<close>

text \<open>
  Claim C3, as stated, has every returned string start with \<^verbatim>\<open>http://\<close>, \<^verbatim>\<open>https://\<close>
  or \<^verbatim>\<open>/\<close>. The prefix test is applied only to what the two regular expressions
  find; structured links pass through untested. An outcome whose \<^verbatim>\<open>links\<close> attribute is
  a dict with the keys \<^verbatim>\<open>internal\<close> and \<^verbatim>\<open>external\<close> yields exactly those two keys.
\<close>

theorem extract_links_structured_counterexample:
  "extract_links
     (bare_result\<lparr>r_links := Some (LinksDict [(''internal'', PyList []), (''external'', PyList [])])\<rparr>)
     = [''internal'', ''external'']
   \<and> \<not> link_prefix_ok ''internal''"
  by code_simp

lemma remdups_snoc: "remdups (ys @ [x]) = remdups (filter (\<lambda>l. l \<noteq> x) ys) @ [x]"
  by (induction ys) auto

lemma unique_links_eq:
  "unique_links xs seen = rev (remdups (rev (filter (\<lambda>l. l \<notin> seen \<and> strip l \<noteq> []) xs)))"
proof (induction xs arbitrary: seen)
  case Nil
  then show ?case by simp
next
  case (Cons x xs)
  show ?case
  proof (cases "x \<notin> seen \<and> strip x \<noteq> []")
    case True
    have f: "filter (\<lambda>l. l \<notin> insert x seen \<and> strip l \<noteq> []) xs
          = filter (\<lambda>l. l \<noteq> x) (filter (\<lambda>l. l \<notin> seen \<and> strip l \<noteq> []) xs)"
      by (induction xs) auto
    have "unique_links (x # xs) seen = x # unique_links xs (insert x seen)"
      using True by simp
    also have "\<dots> = x # rev (remdups (rev (filter (\<lambda>l. l \<noteq> x)
                  (filter (\<lambda>l. l \<notin> seen \<and> strip l \<noteq> []) xs))))"
      by (simp only: Cons.IH [of "insert x seen"] f)
    also have "\<dots> = rev (remdups (rev (filter (\<lambda>l. l \<notin> seen \<and> strip l \<noteq> []) xs) @ [x]))"
      by (simp only: remdups_snoc rev_filter rev_append rev.simps append.simps)
    also have "\<dots> = rev (remdups (rev (filter (\<lambda>l. l \<notin> seen \<and> strip l \<noteq> []) (x # xs))))"
      using True by simp
    finally show ?thesis .
  next
    case False
    then show ?thesis using Cons.IH [of seen] by auto
  qed
qed

lemma html_links_ok: "\<forall>l \<in> set (html_links [] r). link_prefix_ok l"
  by (auto simp: html_links_def split: option.splits)

lemma markdown_links_ok:
  "\<forall>l \<in> set ls. link_prefix_ok l \<Longrightarrow> \<forall>l \<in> set (markdown_links ls r). link_prefix_ok l"
  by (auto simp: markdown_links_def split: option.splits)

lemma found_links_ok:
  "structured_links r = [] \<Longrightarrow> \<forall>l \<in> set (found_links r). link_prefix_ok l"
  unfolding found_links_def using markdown_links_ok [OF html_links_ok] by simp

text \<open>
  Claim C3, amended: the list returned by \<^verbatim>\<open>_extract_links\<close> has no duplicates, has
  no blank string, and keeps the non-blank links found, each at its first occurrence (reversing, dropping all but
  the last occurrence and reversing again keeps first occurrences); when the outcome has
  no structured links, every returned string starts with \<^verbatim>\<open>http://\<close>, \<^verbatim>\<open>https://\<close> or
  \<^verbatim>\<open>/\<close>; and for an outcome whose only field is an html field holding
  \<^verbatim>\<open><a href="https://x.com/a">\<close> the result is exactly that one link.
\<close>

theorem extract_links_properties:
  "distinct (extract_links r)
   \<and> (\<forall>l \<in> set (extract_links r). strip l \<noteq> [])
   \<and> extract_links r = rev (remdups (rev (filter (\<lambda>l. strip l \<noteq> []) (found_links r))))
   \<and> (structured_links r = [] \<longrightarrow> (\<forall>l \<in> set (extract_links r). link_prefix_ok l))
   \<and> extract_links
        (bare_result\<lparr>r_html :=
           Some (''<a href='' @ [CHR 0x22] @ ''https://x.com/a'' @ [CHR 0x22] @ ''>'')\<rparr>)
      = [''https://x.com/a'']"
proof -
  have eq: "extract_links r = rev (remdups (rev (filter (\<lambda>l. strip l \<noteq> []) (found_links r))))"
    by (simp add: extract_links_def unique_links_eq)
  have d: "distinct (extract_links r)" by (simp add: eq)
  have nb: "\<forall>l \<in> set (extract_links r). strip l \<noteq> []" by (simp add: eq)
  have p: "structured_links r = [] \<longrightarrow> (\<forall>l \<in> set (extract_links r). link_prefix_ok l)"
    using found_links_ok [of r] by (auto simp: eq)
  have ex: "extract_links
        (bare_result\<lparr>r_html :=
           Some (''<a href='' @ [CHR 0x22] @ ''https://x.com/a'' @ [CHR 0x22] @ ''>'')\<rparr>)
      = [''https://x.com/a'']"
    by code_simp
  from d nb eq p ex show ?thesis by blast
qed

text \<open>
  The amended statement at an outcome with markdown only: a repeated link is kept once
  and a link with another prefix is dropped.
\<close>

theorem extract_links_properties_witness:
  "structured_links (bare_result\<lparr>r_markdown := Some ''[a](/p) [b](x) [c](/p)''\<rparr>) = []
   \<and> extract_links (bare_result\<lparr>r_markdown := Some ''[a](/p) [b](x) [c](/p)''\<rparr>) = [''/p'']
   \<and> link_prefix_ok ''/p''"
proof -
  have s: "structured_links (bare_result\<lparr>r_markdown := Some ''[a](/p) [b](x) [c](/p)''\<rparr>) = []"
    by (simp add: structured_links_def bare_result_def)
  have e: "extract_links (bare_result\<lparr>r_markdown := Some ''[a](/p) [b](x) [c](/p)''\<rparr>) = [''/p'']"
    by code_simp
  show ?thesis
    using extract_links_properties [of "bare_result\<lparr>r_markdown := Some ''[a](/p) [b](x) [c](/p)''\<rparr>"] s e
    by simp
qed

section \<open>Properties of the batch crawl\<close>

lemma crawl_loop_length [simp]: "length (crawl_loop e s ct i urls) = length urls"
  by (induction urls arbitrary: i) auto

lemma crawl_loop_nth:
  "k < length urls \<Longrightarrow> crawl_loop e s ct i urls ! k = process_url e s ct (i + k) (urls ! k)"
proof (induction urls arbitrary: i k)
  case Nil
  then show ?case by simp
next
  case (Cons u us)
  then show ?case by (cases k) auto
qed

lemma process_url_url [simp]: "e_url (process_url e s ct i u) = u"
  by (simp add: process_url_def Let_def split: sum.splits prod.splits)

lemma crawl_loop_urls: "map e_url (crawl_loop e s ct i urls) = urls"
  by (induction urls arbitrary: i) auto

text \<open>What a returning batch crawl returns.\<close>

lemma crawl_urls_Inr:
  assumes "crawl_urls e s urls ct = Inr (resp, s')"
  shows "crawler s'"
    and "b_results resp = crawl_loop e s' (get_or ct (Some Markdown)) 0 urls"
    and "b_urls_processed resp = length urls"
    and "b_success resp = list_all e_success (b_results resp)"
    and "b_total_execution_time_seconds resp
           = float_round2 e (float_sub e (time_time e (2 * length urls + 1)) (time_time e 0))"
    and "b_average_time_per_url resp
           = (if length urls > 0
              then float_round2 e
                     (float_div e (b_total_execution_time_seconds resp) (real (length urls)))
              else 0)"
  using assms
  by (auto simp: crawl_urls_def Let_def split: sum.splits if_splits)

lemma crawl_urls_returns:
  assumes "crawler s \<or> initialize_raises e = None"
  shows "\<exists>resp s'. crawl_urls e s urls ct = Inr (resp, s')"
  using assms
  by (auto simp: crawl_urls_def initialize_def Let_def split: sum.splits option.splits)

text \<open>
  When the \<^verbatim>\<open>try\<close> body raises, with the crawler present: the fetch raised, or the fetch
  returned and \<^verbatim>\<open>_extract_metadata\<close> raised, or both returned and \<^verbatim>\<open>_extract_content\<close>
  raised.
\<close>

lemma try_url_Inl_iff:
  assumes "crawler s"
  shows "try_url e s ct i u = Inl x \<longleftrightarrow>
           arun e i u = Inl x
           \<or> (\<exists>r. arun e i u = Inr r \<and> extract_metadata_raw r = Inl x)
           \<or> (\<exists>r m. arun e i u = Inr r \<and> extract_metadata_raw r = Inr m
                    \<and> extract_content_raw r ct = Inl x)"
  using assms by (auto simp: try_url_def split: sum.splits)

lemma try_url_Inr_iff:
  assumes "crawler s"
  shows "try_url e s ct i u = Inr (m, c, ok) \<longleftrightarrow>
           (\<exists>r. arun e i u = Inr r \<and> extract_metadata_raw r = Inr m
                \<and> extract_content_raw r ct = Inr c \<and> ok = get_or (raw_success r) True)"
  using assms by (auto simp: try_url_def split: sum.splits)

lemma process_url_raised:
  assumes "try_url e s ct i u = Inl x"
  shows "process_url e s ct i u =
           \<lparr> e_url = u, e_metadata = [], e_content = ContentStr [], e_success = False,
             e_execution_time_seconds =
               float_round2 e (float_sub e (time_time e (2 * i + 2)) (time_time e (2 * i + 1))),
             e_error = Some (str_exn x) \<rparr>"
  using assms by (simp add: process_url_def Let_def)

lemma process_url_returned:
  assumes "try_url e s ct i u = Inr (m, c, ok)"
  shows "process_url e s ct i u =
           \<lparr> e_url = u, e_metadata = m, e_content = c, e_success = ok,
             e_execution_time_seconds =
               float_round2 e (float_sub e (time_time e (2 * i + 2)) (time_time e (2 * i + 1))),
             e_error = None \<rparr>"
  using assms by (simp add: process_url_def Let_def)

lemma process_url_error_iff:
  "e_error (process_url e s ct i u) \<noteq> None \<longleftrightarrow> (\<exists>x. try_url e s ct i u = Inl x)"
  by (cases "try_url e s ct i u") (auto simp: process_url_def Let_def)

text \<open>
  On an object whose content attributes are strings and with a content type given, the
  two extraction functions do not raise and are the ones of the sections above.
\<close>

lemma truthy_value_Str:
  "truthy_value (map_option Str a) = map_option Str (truthy_attr a)"
  by (cases a) (auto simp: truthy_value_def truthy_attr_def)

lemma first_str_Str: "first_str (map (map_option Str) as) = first_truthy as"
  by (induction as) (auto simp: truthy_value_Str split: option.splits)

lemma extract_metadata_raw_of: "extract_metadata_raw (raw_of r) = Inr (extract_metadata r)"
  by (auto simp: extract_metadata_raw_def extract_metadata_def raw_of_def truthy_value_Str
      search_title_def split: option.splits pyval.splits)

lemma raw_canonical_field_of:
  "raw_canonical_field t (raw_of r) = map_option Str (canonical_field t r)"
  by (cases t) (simp_all add: raw_of_def)

lemma raw_content_field_of:
  "raw_content_field t (raw_of r) = map_option Str (content_field t r)"
  by (cases t) (simp_all add: raw_of_def)

lemma raw_all_canonical_of:
  "raw_all_canonical ts (raw_of r) = all_canonical ts r"
  by (induction ts)
     (auto simp: raw_canonical_field_of truthy_value_Str split: option.splits)

lemma raw_all_fallback_of:
  "raw_all_fallback ts (raw_of r) content = all_fallback ts r content"
  by (induction ts arbitrary: content)
     (auto simp: raw_content_field_of truthy_value_Str split: option.splits)

lemma first_str_one: "first_str [map_option Str a] = first_truthy [a]"
  using first_str_Str [of "[a]"] by simp

lemma extract_content_raw_of:
  "extract_content_raw (raw_of r) (Some ct) = Inr (extract_content r ct)"
proof (cases "ct = All")
  case True
  then show ?thesis
    by (simp add: extract_content_raw_def extract_content_def raw_all_canonical_of
        raw_all_fallback_of Let_def)
next
  case False
  have m: "first_str [raw_markdown (raw_of r), raw_html (raw_of r), raw_text (raw_of r)]
             = first_truthy [r_markdown r, r_html r, r_text r]"
    using first_str_Str [of "[r_markdown r, r_html r, r_text r]"] by (simp add: raw_of_def)
  have n: "first_str [raw_markdown_content (raw_of r), raw_html_content (raw_of r),
                      raw_text_content (raw_of r)]
             = first_truthy [r_markdown_content r, r_html_content r, r_text_content r]"
    using first_str_Str [of "[r_markdown_content r, r_html_content r, r_text_content r]"]
    by (simp add: raw_of_def)
  have a: "\<And>t. first_str [raw_canonical_field t (raw_of r)] = truthy_attr (canonical_field t r)"
    by (simp add: raw_canonical_field_of truthy_value_Str split: option.splits)
  have b: "\<And>t. first_str [raw_content_field t (raw_of r)] = truthy_attr (content_field t r)"
    by (simp add: raw_content_field_of truthy_value_Str split: option.splits)
  show ?thesis
    unfolding extract_content_raw_def extract_content_def option.case a b m n
    using False by (simp split: option.splits)
qed

text \<open>
  Claim C6: a batch crawl that returns has one result entry per input URL, in the input
  order, and reports the length of the input as \<^verbatim>\<open>urls_processed\<close>.
\<close>

theorem crawl_urls_order:
  "crawl_urls e s urls ct = Inr (resp, s') \<Longrightarrow>
     map e_url (b_results resp) = urls
     \<and> length (b_results resp) = length urls
     \<and> b_urls_processed resp = length urls"
  using crawl_urls_Inr(2,3) [of e s urls ct resp s'] by (simp add: crawl_loop_urls)

lemma example_batch:
  "\<exists>resp. crawl_urls example_env \<lparr>crawler = False\<rparr> [''a'', ''b'', ''c''] None
           = Inr (resp, \<lparr>crawler = True\<rparr>)"
  by (simp add: crawl_urls_def initialize_def example_env_def Let_def)

text \<open>
  Claim C6 on the example batch of three URLs.
\<close>

theorem crawl_urls_order_witness:
  "(case crawl_urls example_env \<lparr>crawler = False\<rparr> [''a'', ''b'', ''c''] None of
      Inl x \<Rightarrow> False
    | Inr (resp, s') \<Rightarrow> map e_url (b_results resp) = [''a'', ''b'', ''c'']
                        \<and> b_urls_processed resp = 3)"
proof -
  obtain resp where r: "crawl_urls example_env \<lparr>crawler = False\<rparr> [''a'', ''b'', ''c''] None
           = Inr (resp, \<lparr>crawler = True\<rparr>)"
    using example_batch by blast
  show ?thesis using crawl_urls_order [OF r] by (simp add: r)
qed

text \<open>
  Claim C7: once the crawler is there (it was, or \<^verbatim>\<open>initialize\<close> does not raise), a batch
  crawl returns whatever the fetches and the extractions do, with one entry per URL.
  When the fetch of a URL raises, or \<^verbatim>\<open>_extract_metadata\<close> or \<^verbatim>\<open>_extract_content\<close> raises on
  what was fetched, the entry of that URL has \<^verbatim>\<open>success = False\<close>, the text of the
  exception under \<^verbatim>\<open>error\<close>, empty content and empty metadata. When none of them raises,
  the entry holds what was extracted and no \<^verbatim>\<open>error\<close>. The overall \<^verbatim>\<open>success\<close> is the
  conjunction of the entries' flags.
\<close>

theorem crawl_urls_failures:
  "crawler s \<or> initialize_raises e = None \<Longrightarrow>
     \<exists>resp s'. crawl_urls e s urls ct = Inr (resp, s')
       \<and> length (b_results resp) = length urls
       \<and> (\<forall>i < length urls. \<forall>x.
             (arun e i (urls ! i) = Inl x
              \<or> (\<exists>r. arun e i (urls ! i) = Inr r \<and> extract_metadata_raw r = Inl x)
              \<or> (\<exists>r m. arun e i (urls ! i) = Inr r \<and> extract_metadata_raw r = Inr m
                    \<and> extract_content_raw r (get_or ct (Some Markdown)) = Inl x))
             \<longrightarrow>
               e_success (b_results resp ! i) = False
               \<and> e_error (b_results resp ! i) = Some (str_exn x)
               \<and> e_content (b_results resp ! i) = ContentStr []
               \<and> e_metadata (b_results resp ! i) = []
               \<and> e_url (b_results resp ! i) = urls ! i)
       \<and> (\<forall>i < length urls. \<forall>r m c.
             arun e i (urls ! i) = Inr r \<and> extract_metadata_raw r = Inr m
             \<and> extract_content_raw r (get_or ct (Some Markdown)) = Inr c
             \<longrightarrow>
               e_success (b_results resp ! i) = get_or (raw_success r) True
               \<and> e_error (b_results resp ! i) = None
               \<and> e_content (b_results resp ! i) = c
               \<and> e_metadata (b_results resp ! i) = m
               \<and> e_url (b_results resp ! i) = urls ! i)
       \<and> b_success resp = list_all e_success (b_results resp)"
proof -
  assume a: "crawler s \<or> initialize_raises e = None"
  obtain resp s' where r: "crawl_urls e s urls ct = Inr (resp, s')"
    using crawl_urls_returns [OF a] by blast
  note f = crawl_urls_Inr [OF r]
  let ?ct = "get_or ct (Some Markdown)"
  have n: "\<And>i. i < length urls \<Longrightarrow> b_results resp ! i = process_url e s' ?ct i (urls ! i)"
    by (simp add: f(2) crawl_loop_nth)
  have bad: "\<forall>i < length urls. \<forall>x.
             (arun e i (urls ! i) = Inl x
              \<or> (\<exists>r. arun e i (urls ! i) = Inr r \<and> extract_metadata_raw r = Inl x)
              \<or> (\<exists>r m. arun e i (urls ! i) = Inr r \<and> extract_metadata_raw r = Inr m
                    \<and> extract_content_raw r ?ct = Inl x))
             \<longrightarrow>
               e_success (b_results resp ! i) = False
               \<and> e_error (b_results resp ! i) = Some (str_exn x)
               \<and> e_content (b_results resp ! i) = ContentStr []
               \<and> e_metadata (b_results resp ! i) = []
               \<and> e_url (b_results resp ! i) = urls ! i"
  proof (intro allI impI)
    fix i x
    assume i: "i < length urls"
      and h: "arun e i (urls ! i) = Inl x
              \<or> (\<exists>r. arun e i (urls ! i) = Inr r \<and> extract_metadata_raw r = Inl x)
              \<or> (\<exists>r m. arun e i (urls ! i) = Inr r \<and> extract_metadata_raw r = Inr m
                    \<and> extract_content_raw r ?ct = Inl x)"
    have "try_url e s' ?ct i (urls ! i) = Inl x"
      using h try_url_Inl_iff [OF f(1), of e ?ct i "urls ! i" x] by blast
    then show "e_success (b_results resp ! i) = False
               \<and> e_error (b_results resp ! i) = Some (str_exn x)
               \<and> e_content (b_results resp ! i) = ContentStr []
               \<and> e_metadata (b_results resp ! i) = []
               \<and> e_url (b_results resp ! i) = urls ! i"
      by (simp add: n [OF i] process_url_raised)
  qed
  have good: "\<forall>i < length urls. \<forall>r m c.
             arun e i (urls ! i) = Inr r \<and> extract_metadata_raw r = Inr m
             \<and> extract_content_raw r ?ct = Inr c
             \<longrightarrow>
               e_success (b_results resp ! i) = get_or (raw_success r) True
               \<and> e_error (b_results resp ! i) = None
               \<and> e_content (b_results resp ! i) = c
               \<and> e_metadata (b_results resp ! i) = m
               \<and> e_url (b_results resp ! i) = urls ! i"
  proof (intro allI impI)
    fix i r m c
    assume i: "i < length urls"
      and h: "arun e i (urls ! i) = Inr r \<and> extract_metadata_raw r = Inr m
             \<and> extract_content_raw r ?ct = Inr c"
    have "try_url e s' ?ct i (urls ! i) = Inr (m, c, get_or (raw_success r) True)"
      using h try_url_Inr_iff [OF f(1), of e ?ct i "urls ! i" m c "get_or (raw_success r) True"]
      by blast
    then show "e_success (b_results resp ! i) = get_or (raw_success r) True
               \<and> e_error (b_results resp ! i) = None
               \<and> e_content (b_results resp ! i) = c
               \<and> e_metadata (b_results resp ! i) = m
               \<and> e_url (b_results resp ! i) = urls ! i"
      by (simp add: n [OF i] process_url_returned)
  qed
  have len: "length (b_results resp) = length urls" by (simp add: f(2))
  from r len bad good f(4) show ?thesis by blast
qed

lemma example_batch4:
  "\<exists>resp. crawl_urls example_env \<lparr>crawler = False\<rparr> [''a'', ''b'', ''c'', ''d''] None
           = Inr (resp, \<lparr>crawler = True\<rparr>)"
  by (simp add: crawl_urls_def initialize_def example_env_def Let_def)

text \<open>
  Claim C7 on the example batch of four URLs: the second fetch raises, the extraction
  on the fourth result raises, and four entries come back.
\<close>

theorem crawl_urls_failures_witness:
  "(case crawl_urls example_env \<lparr>crawler = False\<rparr> [''a'', ''b'', ''c'', ''d''] None of
      Inl x \<Rightarrow> False
    | Inr (resp, s') \<Rightarrow>
        length (b_results resp) = 4
        \<and> e_success (b_results resp ! 1) = False
        \<and> e_error (b_results resp ! 1) = Some ''timeout''
        \<and> e_content (b_results resp ! 1) = ContentStr []
        \<and> e_success (b_results resp ! 3) = False
        \<and> e_error (b_results resp ! 3) = Some ''expected string or bytes-like object''
        \<and> e_content (b_results resp ! 3) = ContentStr []
        \<and> e_error (b_results resp ! 2) = None
        \<and> e_content (b_results resp ! 2) = ContentStr ''# T''
        \<and> e_metadata (b_results resp ! 2) = [(''title'', PyStr ''T'')]
        \<and> b_success resp = False)"
proof -
  let ?urls = "[''a'', ''b'', ''c'', ''d'']"
  have i: "crawler \<lparr>crawler = False\<rparr> \<or> initialize_raises example_env = None"
    by (simp add: example_env_def)
  obtain resp s' where r: "crawl_urls example_env \<lparr>crawler = False\<rparr> ?urls None = Inr (resp, s')"
    and l: "length (b_results resp) = length ?urls"
    and bad: "\<forall>i < length ?urls. \<forall>x.
             (arun example_env i (?urls ! i) = Inl x
              \<or> (\<exists>r. arun example_env i (?urls ! i) = Inr r \<and> extract_metadata_raw r = Inl x)
              \<or> (\<exists>r m. arun example_env i (?urls ! i) = Inr r \<and> extract_metadata_raw r = Inr m
                    \<and> extract_content_raw r (get_or None (Some Markdown)) = Inl x))
             \<longrightarrow>
               e_success (b_results resp ! i) = False
               \<and> e_error (b_results resp ! i) = Some (str_exn x)
               \<and> e_content (b_results resp ! i) = ContentStr []
               \<and> e_metadata (b_results resp ! i) = []
               \<and> e_url (b_results resp ! i) = ?urls ! i"
    and good: "\<forall>i < length ?urls. \<forall>r m c.
             arun example_env i (?urls ! i) = Inr r \<and> extract_metadata_raw r = Inr m
             \<and> extract_content_raw r (get_or None (Some Markdown)) = Inr c
             \<longrightarrow>
               e_success (b_results resp ! i) = get_or (raw_success r) True
               \<and> e_error (b_results resp ! i) = None
               \<and> e_content (b_results resp ! i) = c
               \<and> e_metadata (b_results resp ! i) = m
               \<and> e_url (b_results resp ! i) = ?urls ! i"
    and a: "b_success resp = list_all e_success (b_results resp)"
    using crawl_urls_failures [OF i, of ?urls None] by blast
  have x1: "arun example_env 1 (?urls ! 1) = Inl (Exception ''timeout'')"
    by (simp add: example_env_def)
  have one: "e_success (b_results resp ! 1) = False
             \<and> e_error (b_results resp ! 1) = Some ''timeout''
             \<and> e_content (b_results resp ! 1) = ContentStr []"
    using bad [rule_format, of 1 "Exception ''timeout''"] x1 by simp
  have x3: "arun example_env 3 (?urls ! 3) = Inr (bare_raw\<lparr>raw_markdown := Some (Obj True ''123'')\<rparr>)"
    by (simp add: example_env_def)
  have m3: "extract_metadata_raw (bare_raw\<lparr>raw_markdown := Some (Obj True ''123'')\<rparr>)
              = Inl (Exception ''expected string or bytes-like object'')"
    by (simp add: extract_metadata_raw_def bare_raw_def truthy_value_def search_title_def)
  have three: "e_success (b_results resp ! 3) = False
             \<and> e_error (b_results resp ! 3) = Some ''expected string or bytes-like object''
             \<and> e_content (b_results resp ! 3) = ContentStr []"
    using bad [rule_format, of 3 "Exception ''expected string or bytes-like object''"] x3 m3
    by simp
  have x2: "arun example_env 2 (?urls ! 2) = Inr (bare_raw\<lparr>raw_markdown := Some (Str ''# T'')\<rparr>)"
    by (simp add: example_env_def bare_raw_def)
  have m2: "extract_metadata_raw (bare_raw\<lparr>raw_markdown := Some (Str ''# T'')\<rparr>)
              = Inr [(''title'', PyStr ''T'')]"
    by (simp add: extract_metadata_raw_def bare_raw_def truthy_value_def search_title_def
        title_of_heading_def search_heading_def heading_at_def is_space_def newline_def Let_def)
  have c2: "extract_content_raw (bare_raw\<lparr>raw_markdown := Some (Str ''# T'')\<rparr>)
              (get_or None (Some Markdown)) = Inr (ContentStr ''# T'')"
    by (simp add: extract_content_raw_def bare_raw_def truthy_value_def get_or_def)
  have two: "e_error (b_results resp ! 2) = None
             \<and> e_content (b_results resp ! 2) = ContentStr ''# T''
             \<and> e_metadata (b_results resp ! 2) = [(''title'', PyStr ''T'')]"
    using good [rule_format, of 2 "bare_raw\<lparr>raw_markdown := Some (Str ''# T'')\<rparr>"
        "[(''title'', PyStr ''T'')]" "ContentStr ''# T''"] x2 m2 c2
    by simp
  have "\<not> list_all e_success (b_results resp)"
    using one l by (auto simp: list_all_length)
  then show ?thesis using r l one two three a by simp
qed

text \<open>
  Claim C10: in the result of a batch crawl an entry has the key \<^verbatim>\<open>error\<close> exactly when
  processing its URL raised, that is when the fetch raised or one of the two extraction
  calls raised on what was fetched. When none of them raised, the entry has no such key
  and its \<^verbatim>\<open>success\<close> is the result object's \<^verbatim>\<open>success\<close> attribute, or true when the
  object has none; so an entry can have \<^verbatim>\<open>success = False\<close> and no \<^verbatim>\<open>error\<close>.
\<close>

theorem crawl_urls_error_key:
  "crawl_urls e s urls ct = Inr (resp, s') \<Longrightarrow>
     (\<forall>i < length urls.
        (e_error (b_results resp ! i) \<noteq> None \<longleftrightarrow>
           (\<exists>x. arun e i (urls ! i) = Inl x
              \<or> (\<exists>r. arun e i (urls ! i) = Inr r \<and> extract_metadata_raw r = Inl x)
              \<or> (\<exists>r m. arun e i (urls ! i) = Inr r \<and> extract_metadata_raw r = Inr m
                    \<and> extract_content_raw r (get_or ct (Some Markdown)) = Inl x)))
        \<and> (\<forall>r m c. arun e i (urls ! i) = Inr r \<and> extract_metadata_raw r = Inr m
               \<and> extract_content_raw r (get_or ct (Some Markdown)) = Inr c \<longrightarrow>
               e_error (b_results resp ! i) = None
               \<and> e_success (b_results resp ! i)
                   = (case raw_success r of None \<Rightarrow> True | Some b \<Rightarrow> b)))"
proof -
  assume r: "crawl_urls e s urls ct = Inr (resp, s')"
  note f = crawl_urls_Inr [OF r]
  let ?ct = "get_or ct (Some Markdown)"
  show ?thesis
  proof (intro allI impI)
    fix i assume i: "i < length urls"
    have n: "b_results resp ! i = process_url e s' ?ct i (urls ! i)"
      using i by (simp add: f(2) crawl_loop_nth)
    have 1: "e_error (b_results resp ! i) \<noteq> None \<longleftrightarrow>
           (\<exists>x. arun e i (urls ! i) = Inl x
              \<or> (\<exists>r. arun e i (urls ! i) = Inr r \<and> extract_metadata_raw r = Inl x)
              \<or> (\<exists>r m. arun e i (urls ! i) = Inr r \<and> extract_metadata_raw r = Inr m
                    \<and> extract_content_raw r ?ct = Inl x))"
      unfolding n process_url_error_iff try_url_Inl_iff [OF f(1)] ..
    have 2: "\<forall>r m c. arun e i (urls ! i) = Inr r \<and> extract_metadata_raw r = Inr m
               \<and> extract_content_raw r ?ct = Inr c \<longrightarrow>
               e_error (b_results resp ! i) = None
               \<and> e_success (b_results resp ! i)
                   = (case raw_success r of None \<Rightarrow> True | Some b \<Rightarrow> b)"
    proof (intro allI impI)
      fix r m c
      assume h: "arun e i (urls ! i) = Inr r \<and> extract_metadata_raw r = Inr m
               \<and> extract_content_raw r ?ct = Inr c"
      have "try_url e s' ?ct i (urls ! i) = Inr (m, c, get_or (raw_success r) True)"
        using h try_url_Inr_iff [OF f(1), of e ?ct i "urls ! i" m c "get_or (raw_success r) True"]
        by blast
      then show "e_error (b_results resp ! i) = None
               \<and> e_success (b_results resp ! i)
                   = (case raw_success r of None \<Rightarrow> True | Some b \<Rightarrow> b)"
        by (simp add: n process_url_returned get_or_def)
    qed
    from 1 2 show "(e_error (b_results resp ! i) \<noteq> None \<longleftrightarrow>
           (\<exists>x. arun e i (urls ! i) = Inl x
              \<or> (\<exists>r. arun e i (urls ! i) = Inr r \<and> extract_metadata_raw r = Inl x)
              \<or> (\<exists>r m. arun e i (urls ! i) = Inr r \<and> extract_metadata_raw r = Inr m
                    \<and> extract_content_raw r ?ct = Inl x)))
        \<and> (\<forall>r m c. arun e i (urls ! i) = Inr r \<and> extract_metadata_raw r = Inr m
               \<and> extract_content_raw r ?ct = Inr c \<longrightarrow>
               e_error (b_results resp ! i) = None
               \<and> e_success (b_results resp ! i)
                   = (case raw_success r of None \<Rightarrow> True | Some b \<Rightarrow> b))"
      by blast
  qed
qed

lemma example_batch_null:
  "\<exists>resp. crawl_urls example_env \<lparr>crawler = False\<rparr> [''a''] (Some None)
           = Inr (resp, \<lparr>crawler = True\<rparr>)"
  by (simp add: crawl_urls_def initialize_def example_env_def Let_def)

text \<open>
  Claim C10 on the example batch of four URLs: the first entry has \<^verbatim>\<open>success = False\<close>
  and no \<^verbatim>\<open>error\<close> key, the second has the key because the fetch raised, the third
  defaults to success, the fourth has the key because the extraction raised. With the
  content type \<^verbatim>\<open>None\<close> the entry of a fetched page has the key as well.
\<close>

theorem crawl_urls_error_key_witness:
  "(case crawl_urls example_env \<lparr>crawler = False\<rparr> [''a'', ''b'', ''c'', ''d''] None of
      Inl x \<Rightarrow> False
    | Inr (resp, s') \<Rightarrow>
        e_success (b_results resp ! 0) = False \<and> e_error (b_results resp ! 0) = None
        \<and> e_error (b_results resp ! 1) \<noteq> None
        \<and> e_success (b_results resp ! 2) = True \<and> e_error (b_results resp ! 2) = None
        \<and> e_error (b_results resp ! 3) \<noteq> None)
   \<and> (case crawl_urls example_env \<lparr>crawler = False\<rparr> [''a''] (Some None) of
      Inl x \<Rightarrow> False
    | Inr (resp, s') \<Rightarrow> e_error (b_results resp ! 0) \<noteq> None)"
proof -
  let ?urls = "[''a'', ''b'', ''c'', ''d'']"
  let ?ok = "\<lambda>b. bare_raw\<lparr>raw_markdown := Some (Str ''# T''), raw_success := b\<rparr>"
  obtain resp where r: "crawl_urls example_env \<lparr>crawler = False\<rparr> ?urls None
           = Inr (resp, \<lparr>crawler = True\<rparr>)"
    using example_batch4 by blast
  note k1 = crawl_urls_error_key [OF r, rule_format, THEN conjunct1]
  note k2 = crawl_urls_error_key [OF r, rule_format, THEN conjunct2, rule_format]
  have m: "\<And>b. extract_metadata_raw (?ok b) = Inr [(''title'', PyStr ''T'')]"
    by (simp add: extract_metadata_raw_def bare_raw_def truthy_value_def search_title_def
        title_of_heading_def search_heading_def heading_at_def is_space_def newline_def Let_def)
  have c: "\<And>b. extract_content_raw (?ok b) (get_or None (Some Markdown)) = Inr (ContentStr ''# T'')"
    by (simp add: extract_content_raw_def bare_raw_def truthy_value_def get_or_def)
  have a0: "arun example_env 0 (?urls ! 0) = Inr (?ok (Some False))"
    by (simp add: example_env_def)
  have a2: "arun example_env 2 (?urls ! 2) = Inr (?ok None)"
    by (simp add: example_env_def)
  have e0: "e_success (b_results resp ! 0) = False \<and> e_error (b_results resp ! 0) = None"
    using k2 [of 0 "?ok (Some False)" "[(''title'', PyStr ''T'')]" "ContentStr ''# T''"]
      a0 m c by simp
  have e2: "e_success (b_results resp ! 2) = True \<and> e_error (b_results resp ! 2) = None"
    using k2 [of 2 "?ok None" "[(''title'', PyStr ''T'')]" "ContentStr ''# T''"]
      a2 m c by simp
  have e1: "e_error (b_results resp ! 1) \<noteq> None"
    using k1 [of 1] by (simp add: example_env_def)
  have m3: "extract_metadata_raw (bare_raw\<lparr>raw_markdown := Some (Obj True ''123'')\<rparr>)
              = Inl (Exception ''expected string or bytes-like object'')"
    by (simp add: extract_metadata_raw_def bare_raw_def truthy_value_def search_title_def)
  have e3: "e_error (b_results resp ! 3) \<noteq> None"
    using k1 [of 3] m3 by (simp add: example_env_def)
  obtain resp' where r': "crawl_urls example_env \<lparr>crawler = False\<rparr> [''a''] (Some None)
           = Inr (resp', \<lparr>crawler = True\<rparr>)"
    using example_batch_null by blast
  have cn: "extract_content_raw (?ok (Some False)) (get_or (Some None) (Some Markdown))
              = Inl (Exception ''hasattr(): attribute name must be string'')"
    by (simp add: extract_content_raw_def get_or_def)
  have n0: "e_error (b_results resp' ! 0) \<noteq> None"
    using crawl_urls_error_key [OF r', rule_format, THEN conjunct1, of 0] m [of "Some False"] cn
    by (simp add: example_env_def)
  show ?thesis using e0 e1 e2 e3 n0 by (simp add: r r')
qed

text \<open>
  Claim C8, as stated, equates \<^verbatim>\<open>average_time_per_url\<close> with the quotient of the total
  time and the number of URLs. The code rounds the quotient to two decimals: three URLs
  in a total of one second give 0.33, which is not one third.
\<close>

theorem crawl_urls_average_counterexample:
  "(case crawl_urls example_env \<lparr>crawler = False\<rparr> [''a'', ''b'', ''c''] None of
      Inl x \<Rightarrow> False
    | Inr (resp, s') \<Rightarrow>
        b_urls_processed resp = 3
        \<and> b_total_execution_time_seconds resp = 1
        \<and> b_average_time_per_url resp = 33 / 100
        \<and> b_average_time_per_url resp
            \<noteq> b_total_execution_time_seconds resp / real (b_urls_processed resp))"
  by (simp add: crawl_urls_def initialize_def example_env_def Let_def decimal_round2_def
      round_half_even_def)

text \<open>
  Claim C8, amended: \<^verbatim>\<open>average_time_per_url\<close> is what \<^verbatim>\<open>round(.., 2)\<close> makes of the
  quotient of \<^verbatim>\<open>total_execution_time_seconds\<close> and \<^verbatim>\<open>urls_processed\<close> when
  \<^verbatim>\<open>urls_processed\<close> is positive, and 0 when \<^verbatim>\<open>urls_processed\<close> is 0, where no division
  takes place. This holds whatever the interpreter's division and rounding of floats
  are.
\<close>

theorem crawl_urls_average:
  "crawl_urls e s urls ct = Inr (resp, s') \<Longrightarrow>
     b_average_time_per_url resp
       = (if b_urls_processed resp > 0
          then float_round2 e
                 (float_div e (b_total_execution_time_seconds resp)
                    (real (b_urls_processed resp)))
          else 0)"
  using crawl_urls_Inr(3,6) [of e s urls ct resp s'] by simp

text \<open>
  Claim C8, amended, on the example batch and on the empty batch.
\<close>

theorem crawl_urls_average_witness:
  "(case crawl_urls example_env \<lparr>crawler = False\<rparr> [''a'', ''b'', ''c''] None of
      Inl x \<Rightarrow> False
    | Inr (resp, s') \<Rightarrow> b_average_time_per_url resp = 33 / 100)
   \<and> (case crawl_urls example_env \<lparr>crawler = False\<rparr> [] None of
      Inl x \<Rightarrow> False
    | Inr (resp, s') \<Rightarrow> b_average_time_per_url resp = 0)"
proof -
  obtain resp where r: "crawl_urls example_env \<lparr>crawler = False\<rparr> [''a'', ''b'', ''c''] None
           = Inr (resp, \<lparr>crawler = True\<rparr>)"
    using example_batch by blast
  have t: "b_total_execution_time_seconds resp = 1" and n: "b_urls_processed resp = 3"
    using crawl_urls_Inr(3,5) [OF r]
    by (simp_all add: example_env_def decimal_round2_def round_half_even_def)
  have a: "b_average_time_per_url resp = 33 / 100"
    using crawl_urls_average [OF r]
    by (simp add: t n example_env_def decimal_round2_def round_half_even_def)
  obtain resp0 where r0: "crawl_urls example_env \<lparr>crawler = False\<rparr> [] None
           = Inr (resp0, \<lparr>crawler = True\<rparr>)"
    by (simp add: crawl_urls_def initialize_def example_env_def Let_def)
  have n0: "b_urls_processed resp0 = 0" using crawl_urls_Inr(3) [OF r0] by simp
  have a0: "b_average_time_per_url resp0 = 0"
    using crawl_urls_average [OF r0] by (simp add: n0)
  show ?thesis using a a0 by (simp add: r r0)
qed

section \<open>Properties of the deep crawl\<close>

lemma set_add_distinct: "distinct us \<Longrightarrow> distinct (set_add v us)"
  by (simp add: set_add_def)

lemma set_add_set: "set (set_add v us) = insert v (set us)"
  by (auto simp: set_add_def)

lemma collect_distinct: "distinct (fst acc) \<Longrightarrow> distinct (fst (collect rs acc))"
proof (induction rs arbitrary: acc)
  case Nil
  then show ?case by simp
next
  case (Cons r rs)
  obtain us m where acc: "acc = (us, m)" by (cases acc)
  show ?case
    using Cons.prems unfolding acc
    by (auto intro!: Cons.IH simp: set_add_distinct split: option.splits)
qed

lemma collect_set:
  "set (fst (collect rs acc)) = set (fst acc) \<union> {v. \<exists>r \<in> set rs. r_url r = Some v}"
proof (induction rs arbitrary: acc)
  case Nil
  then show ?case by simp
next
  case (Cons r rs)
  obtain us m where acc: "acc = (us, m)" by (cases acc)
  show ?case
    unfolding acc by (cases "r_url r") (auto simp: Cons.IH set_add_set)
qed

lemma crawl_sub_urls_Inr:
  assumes "crawl_sub_urls e s u kw = Inr (resp, s')"
  shows "\<exists>results. deep_arun e u (build_strategy kw) = Inr results
           \<and> s_sub_urls resp = filter (\<lambda>v. v \<noteq> u) (fst (collect results ([], PyDict [])))
           \<and> s_urls_found resp = length (s_sub_urls resp)"
  using assms
  by (auto simp: crawl_sub_urls_def Let_def split: sum.splits if_splits prod.splits)

text \<open>
  Claim C9: in the result of a deep crawl that returns, \<^verbatim>\<open>sub_urls\<close> has no URL twice,
  does not contain the seed, and \<^verbatim>\<open>urls_found\<close> is its length. Its members are exactly
  the URLs of the pages the renderer yielded, the seed apart.
\<close>

theorem crawl_sub_urls_dedup:
  "crawl_sub_urls e s u kw = Inr (resp, s') \<Longrightarrow>
     distinct (s_sub_urls resp)
     \<and> u \<notin> set (s_sub_urls resp)
     \<and> s_urls_found resp = length (s_sub_urls resp)
     \<and> (\<forall>results. deep_arun e u (build_strategy kw) = Inr results \<longrightarrow>
           set (s_sub_urls resp) = {v. \<exists>r \<in> set results. r_url r = Some v} - {u})"
proof -
  assume r: "crawl_sub_urls e s u kw = Inr (resp, s')"
  obtain results where d: "deep_arun e u (build_strategy kw) = Inr results"
    and f: "s_sub_urls resp = filter (\<lambda>v. v \<noteq> u) (fst (collect results ([], PyDict [])))"
    and n: "s_urls_found resp = length (s_sub_urls resp)"
    using crawl_sub_urls_Inr [OF r] by blast
  have "distinct (fst (collect results ([], PyDict [])))"
    by (rule collect_distinct) simp
  then have 1: "distinct (s_sub_urls resp)" by (simp add: f)
  have 2: "u \<notin> set (s_sub_urls resp)" by (simp add: f)
  have 3: "set (s_sub_urls resp) = {v. \<exists>r \<in> set results. r_url r = Some v} - {u}"
    by (auto simp: f collect_set)
  show ?thesis using 1 2 3 n d by simp
qed

lemma example_deep:
  "\<exists>resp. crawl_sub_urls example_env \<lparr>crawler = False\<rparr> ''https://example.com''
             \<lparr>k_depth = Some 1, k_max_pages = Some 5, k_strategy = Some ''bfs'',
              k_exclude_patterns = Some []\<rparr>
           = Inr (resp, \<lparr>crawler = True\<rparr>)"
  by (simp add: crawl_sub_urls_def initialize_def example_env_def Let_def split: prod.splits)

text \<open>
  Claim C9 on the example deep crawl, where the renderer yields one page twice.
\<close>

theorem crawl_sub_urls_dedup_witness:
  "(case crawl_sub_urls example_env \<lparr>crawler = False\<rparr> ''https://example.com''
             \<lparr>k_depth = Some 1, k_max_pages = Some 5, k_strategy = Some ''bfs'',
              k_exclude_patterns = Some []\<rparr> of
      Inl x \<Rightarrow> False
    | Inr (resp, s') \<Rightarrow>
        distinct (s_sub_urls resp) \<and> ''https://example.com'' \<notin> set (s_sub_urls resp)
        \<and> s_urls_found resp = length (s_sub_urls resp))"
proof -
  obtain resp where r: "crawl_sub_urls example_env \<lparr>crawler = False\<rparr> ''https://example.com''
             \<lparr>k_depth = Some 1, k_max_pages = Some 5, k_strategy = Some ''bfs'',
              k_exclude_patterns = Some []\<rparr>
           = Inr (resp, \<lparr>crawler = True\<rparr>)"
    using example_deep by blast
  show ?thesis using crawl_sub_urls_dedup [OF r] by (simp add: r)
qed

text \<open>
  Claim C1 does not hold of the code. \<^verbatim>\<open>_build_url_filter\<close> puts \<^verbatim>\<open>.*login.*\<close> among the
  patterns, but the strategy handed to the renderer carries no filter chain, the
  exclusion patterns of the caller do not influence the result at all, and a page
  \<^verbatim>\<open>https://example.com/login\<close> yielded for the seed \<^verbatim>\<open>https://example.com\<close> with an
  empty pattern list is reported among the sub-URLs.
\<close>

theorem crawl_sub_urls_login_not_excluded:
  "''.*login.*'' \<in> set (build_url_filter (Some []))
   \<and> filter_chain (build_strategy kw) = None
   \<and> crawl_sub_urls e s u (kw\<lparr>k_exclude_patterns := ps\<rparr>) = crawl_sub_urls e s u kw
   \<and> (case crawl_sub_urls example_env \<lparr>crawler = False\<rparr> ''https://example.com''
             \<lparr>k_depth = Some 1, k_max_pages = Some 5, k_strategy = Some ''bfs'',
              k_exclude_patterns = Some []\<rparr> of
        Inl x \<Rightarrow> False
      | Inr (resp, s') \<Rightarrow>
          s_sub_urls resp = [''https://example.com/login''] \<and> s_urls_found resp = 1)"
proof -
  have 1: "''.*login.*'' \<in> set (build_url_filter (Some []))"
    by (simp add: build_url_filter_def default_exclude_patterns_def)
  have 2: "filter_chain (build_strategy kw) = None"
    by (simp add: build_strategy_def Let_def)
  have b: "build_strategy (kw\<lparr>k_exclude_patterns := ps\<rparr>) = build_strategy kw"
    by (simp add: build_strategy_def Let_def)
  have 3: "crawl_sub_urls e s u (kw\<lparr>k_exclude_patterns := ps\<rparr>) = crawl_sub_urls e s u kw"
    by (simp add: crawl_sub_urls_def b Let_def split: sum.splits prod.splits)
  have 4: "(case crawl_sub_urls example_env \<lparr>crawler = False\<rparr> ''https://example.com''
             \<lparr>k_depth = Some 1, k_max_pages = Some 5, k_strategy = Some ''bfs'',
              k_exclude_patterns = Some []\<rparr> of
        Inl x \<Rightarrow> False
      | Inr (resp, s') \<Rightarrow>
          s_sub_urls resp = [''https://example.com/login''] \<and> s_urls_found resp = 1)"
    by (simp add: crawl_sub_urls_def initialize_def example_env_def Let_def set_add_def
        bare_result_def)
  from 1 2 3 4 show ?thesis by blast
qed

section \<open>Properties of the URL helpers\<close>

text \<open>
  Claim C2, as stated, has \<^verbatim>\<open>normalize_url\<close> strip fragments and fail on a result without
  scheme and host. The code does neither: an absolute URL with a fragment comes back
  with its fragment, whatever the base, and the relative reference \<^verbatim>\<open>a#top\<close> without a
  base comes back as it is, as a value and not as a failure.
\<close>

theorem normalize_url_fragment_counterexample:
  "normalize_url (\<lambda>b u. Inr (b @ u)) ''https://example.com/a#top'' (Some ''https://example.com/'')
     = Inr ''https://example.com/a#top''
   \<and> CHR ''#'' \<in> set ''https://example.com/a#top''
   \<and> normalize_url (\<lambda>b u. Inr (b @ u)) ''a#top'' None = Inr ''a#top''"
  by (simp add: normalize_url_def)

text \<open>
  Claim C2, amended: \<^verbatim>\<open>normalize_url\<close> returns the URL unchanged when there is no
  non-empty base or when the URL starts with \<^verbatim>\<open>http://\<close> or \<^verbatim>\<open>https://\<close>; otherwise it
  returns what \<^verbatim>\<open>urljoin\<close> makes of base and URL. It raises only when \<^verbatim>\<open>urljoin\<close> does.
  Whether a URL has both a scheme and a host is the separate boolean check
  \<^verbatim>\<open>validate_url\<close>, false also when parsing raises.
\<close>

theorem normalize_url_cases:
  "(base_url = None \<or> base_url = Some [] \<or> prefix ''http://'' u \<or> prefix ''https://'' u
      \<longrightarrow> normalize_url urljoin u base_url = Inr u)
   \<and> (\<forall>b. base_url = Some b \<and> b \<noteq> [] \<and> \<not> prefix ''http://'' u \<and> \<not> prefix ''https://'' u
      \<longrightarrow> normalize_url urljoin u base_url = urljoin b u)
   \<and> (\<forall>x. normalize_url urljoin u base_url = Inl x
      \<longrightarrow> (\<exists>b. base_url = Some b \<and> urljoin b u = Inl x))
   \<and> (validate_url urlparse u
      \<longleftrightarrow> (\<exists>p. urlparse u = Inr p \<and> scheme p \<noteq> [] \<and> netloc p \<noteq> []))"
  by (auto simp: normalize_url_def validate_url_def split: option.splits sum.splits if_splits)

text \<open>
  Claim C2, amended, at a relative reference with and without a base, with a
  \<^verbatim>\<open>urljoin\<close> that concatenates and a \<^verbatim>\<open>urlparse\<close> that raises.
\<close>

theorem normalize_url_cases_witness:
  "normalize_url (\<lambda>b u. Inr (b @ u)) ''a#top'' (Some ''https://example.com/'')
     = Inr ''https://example.com/a#top''
   \<and> normalize_url (\<lambda>b u. Inr (b @ u)) ''a#top'' None = Inr ''a#top''
   \<and> \<not> validate_url (\<lambda>u. Inl (Exception ''bad'')) ''a#top''"
  using normalize_url_cases
      [of "Some ''https://example.com/''" "''a#top''" "\<lambda>b u. Inr (b @ u)" "\<lambda>u. Inl (Exception ''bad'')"]
    normalize_url_cases
      [of None "''a#top''" "\<lambda>b u. Inr (b @ u)" "\<lambda>u. Inl (Exception ''bad'')"]
  by simp

end
